theory Spec2Isabelle
  imports Main
begin

section \<open>The native writer of the native ingester\<close>

text \<open>
  A shallow embedding of \<^verbatim>\<open>native/native_writer.go\<close>: the collection lookup, the
  construction of a \<^verbatim>\<open>NativeMessage\<close>, the HTTP write to the native store and the
  connectivity check. Every function keeps the name it has in the Go source. What a Go
  function does beyond returning (log entries, the HTTP call, draining and closing the
  response body) is returned as a list of events, in the order the calls are made.
\<close>

subsection \<open>Values\<close>

text \<open>
  A Go \<^verbatim>\<open>error\<close> value. The package makes its own with \<^verbatim>\<open>errors.New\<close> and
  \<^verbatim>\<open>fmt.Errorf\<close> (kept as the format and its arguments); every other error comes
  from code outside the package (the JSON decoder, the HTTP client, the content body
  parser) and is passed through as it is.
\<close>

datatype error =
    ErrorsNew string
  | FmtErrorf string "int list"
  | Foreign string

text \<open>
  A call either returns or panics. The one panic the package can raise itself is the
  assignment to an entry of a nil map.
\<close>

datatype 'a outcome = Panic string | Return 'a

text \<open>
  The values \<^verbatim>\<open>encoding/json\<close> stores in an \<^verbatim>\<open>interface{}\<close>. No function of
  the package reads a number, so \<^verbatim>\<open>float64\<close> is left unspecified. The entries of a
  \<^verbatim>\<open>map[string]interface{}\<close> are a map from field names to such values.
\<close>

typedecl float64

datatype json =
    JNull
  | JBool bool
  | JNumber float64
  | JString string
  | JArray "json list"
  | JObject "(string \<times> json) list"

type_synonym json_object = "string \<rightharpoonup> json"

text \<open>
  A Go map that the package assigns to, or hands to code outside the package, is
  \<^verbatim>\<open>None\<close> when it is nil and \<^verbatim>\<open>Some\<close> of its entries otherwise. Reading a nil map
  finds no entries; assigning to one panics. A map that is only ever indexed is given
  by its entries alone.
\<close>

definition entries :: "('k \<rightharpoonup> 'v) option \<Rightarrow> ('k \<rightharpoonup> 'v)" where
  "entries m = (case m of None \<Rightarrow> Map.empty | Some es \<Rightarrow> es)"

text \<open>Indexing a \<^verbatim>\<open>map[string]string\<close>: a missing key reads as the empty string.\<close>

definition index_map :: "(string \<rightharpoonup> string) \<Rightarrow> string \<Rightarrow> string" where
  "index_map m k = (case m k of None \<Rightarrow> '''' | Some v \<Rightarrow> v)"

subsection \<open>HTTP requests, responses and events\<close>

text \<open>
  An \<^verbatim>\<open>http.Request\<close> as far as the package touches it. \<^verbatim>\<open>URL\<close> is the string
  given to \<^verbatim>\<open>http.NewRequest\<close>. The package only ever calls \<^verbatim>\<open>Header.Set\<close>, which
  leaves one value per key, so the header is a map from keys to single values.
\<close>

record request =
  Method :: string
  URL :: string
  Header :: "string \<rightharpoonup> string"
  Host :: string
  ReqBody :: "string option"

text \<open>
  The body of a response is only copied to \<^verbatim>\<open>ioutil.Discard\<close> and closed; what is
  kept of it is how these two calls end.
\<close>

record ReadCloser =
  copy_err :: "error option"
  close_err :: "error option"

record response =
  StatusCode :: int
  RespBody :: ReadCloser

datatype level = InfoLevel | WarnLevel | ErrorLevel

datatype field_value = FString string | FInt int | FError error

text \<open>
  What a call does to the outside: a logrus entry (level, fields in the order of the
  \<^verbatim>\<open>WithField\<close>/\<^verbatim>\<open>WithError\<close> calls, message), a call of \<^verbatim>\<open>httpClient.Do\<close> with the
  request sent and what came back, \<^verbatim>\<open>io.Copy(ioutil.Discard, resp.Body)\<close> and
  \<^verbatim>\<open>resp.Body.Close()\<close>.
\<close>

datatype event =
    Log level "(string \<times> field_value) list" string
  | HttpDo request "error + response"
  | IoCopyDiscard
  | BodyClose

fun is_HttpDo :: "event \<Rightarrow> bool" where
  "is_HttpDo (HttpDo r out) = True"
| "is_HttpDo e = False"

fun is_body_call :: "event \<Rightarrow> bool" where
  "is_body_call IoCopyDiscard = True"
| "is_body_call BodyClose = True"
| "is_body_call e = False"

subsection \<open>Code outside the repository\<close>

text \<open>
  The functions of the Go standard library and of imported packages that the writer
  calls are parameters of the model:
  \<^item> \<^verbatim>\<open>json.Unmarshal\<close> into a fresh \<^verbatim>\<open>map[string]interface{}\<close>, returning the
    error or the map as the call leaves it (nil after decoding the JSON value
    \<^verbatim>\<open>null\<close>), and \<^verbatim>\<open>json.Marshal\<close> of such a map;
  \<^item> \<^verbatim>\<open>url_Parse\<close>: the URL parsing inside \<^verbatim>\<open>http.NewRequest\<close>, returning the host
    of the URL, which becomes the \<^verbatim>\<open>Host\<close> of the new request;
  \<^item> \<^verbatim>\<open>textproto.CanonicalMIMEHeaderKey\<close>, applied by \<^verbatim>\<open>Header.Set\<close> to the key;
  \<^item> \<^verbatim>\<open>strings.TrimSpace\<close>;
  \<^item> \<^verbatim>\<open>range_map\<close>: the entries of a \<^verbatim>\<open>map[string]string\<close> in the order in which
    a \<^verbatim>\<open>range\<close> loop visits them (the Go runtime picks the order);
  \<^item> \<^verbatim>\<open>httphandlers.GTGPath\<close>, the path of the good-to-go endpoint.
\<close>

record library =
  json_Unmarshal :: "string \<Rightarrow> error + json_object option"
  json_Marshal :: "json_object option \<Rightarrow> error + string"
  url_Parse :: "string \<Rightarrow> error + string"
  CanonicalMIMEHeaderKey :: "string \<Rightarrow> string"
  TrimSpace :: "string \<Rightarrow> string"
  range_map :: "(string \<rightharpoonup> string) \<Rightarrow> (string \<times> string) list"
  GTGPath :: string

text \<open>
  \<^verbatim>\<open>http.NewRequest(method, url, body)\<close>. Both calls of the package pass a valid method
  literal, so the call fails exactly when the URL does not parse.
\<close>

definition http_NewRequest :: "library \<Rightarrow> string \<Rightarrow> string \<Rightarrow> string option \<Rightarrow> error + request" where
  "http_NewRequest lib method url reqBody =
     (case url_Parse lib url of
        Inl err \<Rightarrow> Inl err
      | Inr host \<Rightarrow>
          Inr \<lparr>Method = method, URL = url, Header = Map.empty, Host = host, ReqBody = reqBody\<rparr>)"

text \<open>\<^verbatim>\<open>request.Header.Set(key, value)\<close>.\<close>

definition Header_Set :: "library \<Rightarrow> string \<Rightarrow> string \<Rightarrow> request \<Rightarrow> request" where
  "Header_Set lib key v r = r\<lparr>Header := (Header r)(CanonicalMIMEHeaderKey lib key \<mapsto> v)\<rparr>"

subsection \<open>The writer\<close>

definition nativeHashHeader :: string where
  "nativeHashHeader = ''X-Native-Hash''"

definition transactionIDHeader :: string where
  "transactionIDHeader = ''X-Request-Id''"

record nativeCollections =
  collectionsOriginIdsMap :: "string \<rightharpoonup> string"

text \<open>
  The struct \<^verbatim>\<open>nativeWriter\<close>. \<^verbatim>\<open>httpClient\<close> is the client's \<^verbatim>\<open>Do\<close>: what the
  network answers to a request, an error or a response (when \<^verbatim>\<open>Do\<close> returns an error
  the writer does not look at the response, whose body the client has closed already).
  \<^verbatim>\<open>bodyParser\<close> is the \<^verbatim>\<open>getUUID\<close> of the \<^verbatim>\<open>ContentBodyParser\<close> the writer was
  built with. The collection mapping is only ever indexed.
\<close>

record nativeWriter =
  address :: string
  collections :: nativeCollections
  hostHeader :: string
  httpClient :: "request \<Rightarrow> error + response"
  bodyParser :: "json_object option \<Rightarrow> error + string"

definition newNativeCollections :: "(string \<rightharpoonup> string) \<Rightarrow> nativeCollections" where
  "newNativeCollections m = \<lparr>collectionsOriginIdsMap = m\<rparr>"

text \<open>
  \<^verbatim>\<open>NewWriter\<close> gives the writer a client of its own, \<^verbatim>\<open>http.Client{}\<close>; what that
  client answers is up to the network, the first argument here.
\<close>

definition NewWriter :: "(request \<Rightarrow> error + response) \<Rightarrow> string \<Rightarrow> (string \<rightharpoonup> string) \<Rightarrow> string \<Rightarrow> (json_object option \<Rightarrow> error + string) \<Rightarrow> nativeWriter" where
  "NewWriter network addr originIdsMap host parser =
     \<lparr>address = addr,
      collections = newNativeCollections originIdsMap,
      hostHeader = host,
      httpClient = network,
      bodyParser = parser\<rparr>"

definition getCollectionByOriginID :: "nativeCollections \<Rightarrow> string \<Rightarrow> string \<times> error option" where
  "getCollectionByOriginID c originID =
     (let collection = index_map (collectionsOriginIdsMap c) originID in
      if collection = '''' then ('''', Some (ErrorsNew ''Collection not found''))
      else (collection, None))"

definition GetCollectionByOriginID :: "nativeWriter \<Rightarrow> string \<Rightarrow> string \<times> error option" where
  "GetCollectionByOriginID nw originID = getCollectionByOriginID (collections nw) originID"

subsection \<open>Messages\<close>

record NativeMessage =
  body :: "json_object option"
  headers :: "(string \<rightharpoonup> string) option"

text \<open>
  \<^verbatim>\<open>NewNativeMessage\<close> returns \<^verbatim>\<open>(NativeMessage, error)\<close>; on a decoding error the
  message is the zero value, whose two maps are nil. When the decoder leaves the map nil
  (the content body \<^verbatim>\<open>null\<close>), the assignment of \<^verbatim>\<open>lastModified\<close> panics.
\<close>

definition NewNativeMessage :: "library \<Rightarrow> string \<Rightarrow> string \<Rightarrow> string \<Rightarrow> (NativeMessage \<times> error option) outcome" where
  "NewNativeMessage lib contentBody timestamp transactionID =
     (case json_Unmarshal lib contentBody of
        Inl err \<Rightarrow> Return (\<lparr>body = None, headers = None\<rparr>, Some err)
      | Inr None \<Rightarrow> Panic ''assignment to entry in nil map''
      | Inr (Some decoded) \<Rightarrow>
          (let body1 = decoded(''lastModified'' \<mapsto> JString timestamp);
               body2 = body1(''publishReference'' \<mapsto> JString transactionID);
               msg = \<lparr>body = Some body2, headers = Some Map.empty\<rparr>
           in Return
                (msg\<lparr>headers := Some ((entries (headers msg))(transactionIDHeader \<mapsto> transactionID))\<rparr>,
                 None)))"

text \<open>
  \<^verbatim>\<open>AddHashHeader\<close> changes the message it is called on; the model returns the changed
  message.
\<close>

definition AddHashHeader :: "string \<Rightarrow> NativeMessage \<Rightarrow> NativeMessage outcome" where
  "AddHashHeader hash msg =
     (case headers msg of
        None \<Rightarrow> Panic ''assignment to entry in nil map''
      | Some hs \<Rightarrow> Return (msg\<lparr>headers := Some (hs(nativeHashHeader \<mapsto> hash))\<rparr>))"

definition transactionID :: "NativeMessage \<Rightarrow> string" where
  "transactionID msg = index_map (entries (headers msg)) transactionIDHeader"

subsection \<open>Writing to a collection\<close>

definition properClose :: "response \<Rightarrow> event list" where
  "properClose resp =
     [IoCopyDiscard]
     @ (case copy_err (RespBody resp) of
          None \<Rightarrow> []
        | Some err \<Rightarrow> [Log WarnLevel [(''error'', FError err)] ''Couldn't read response body''])
     @ [BodyClose]
     @ (case close_err (RespBody resp) of
          None \<Rightarrow> []
        | Some err \<Rightarrow> [Log WarnLevel [(''error'', FError err)] ''Couldn't close response body''])"

definition isNot2XXStatusCode :: "int \<Rightarrow> bool" where
  "isNot2XXStatusCode statusCode \<longleftrightarrow> statusCode < 200 \<or> statusCode \<ge> 300"

text \<open>
  Lines 85 to 93 of \<^verbatim>\<open>WriteToCollection\<close>: the headers and the host put on the request
  that \<^verbatim>\<open>http.NewRequest\<close> returned.
\<close>

definition putRequest :: "library \<Rightarrow> nativeWriter \<Rightarrow> NativeMessage \<Rightarrow> request \<Rightarrow> request" where
  "putRequest lib nw msg request0 =
     (let request1 = Header_Set lib ''Content-Type'' ''application/json'' request0;
          request2 = fold (\<lambda>(header, v). Header_Set lib header v) (range_map lib (entries (headers msg))) request1
      in if length (TrimSpace lib (hostHeader nw)) > 0
         then request2\<lparr>Host := hostHeader nw\<rparr>
         else request2)"

text \<open>
  \<^verbatim>\<open>WriteToCollection\<close> returns the error (\<^verbatim>\<open>None\<close> is nil) and the events of the
  call. The deferred \<^verbatim>\<open>properClose\<close> runs last on both paths that have a response.
\<close>

definition WriteToCollection :: "library \<Rightarrow> nativeWriter \<Rightarrow> NativeMessage \<Rightarrow> string \<Rightarrow> error option \<times> event list" where
  "WriteToCollection lib nw msg collection =
     (let tid = (''transaction_id'', FString (transactionID msg)) in
      case bodyParser nw (body msg) of
        Inl err \<Rightarrow>
          (Some err,
           [Log ErrorLevel [tid, (''error'', FError err)] ''Error extracting uuid. Ignoring message.''])
      | Inr contentUUID \<Rightarrow>
          (let started = [Log InfoLevel [tid, (''uuid'', FString contentUUID)]
                            ''Start processing native publish event'']
           in case json_Marshal lib (body msg) of
             Inl err \<Rightarrow>
               (Some err,
                started @ [Log ErrorLevel [(''error'', FError err), tid] ''Error marshalling message''])
           | Inr cBodyAsJSON \<Rightarrow>
               (let requestURL = address nw @ ''/'' @ collection @ ''/'' @ contentUUID;
                    url = (''requestURL'', FString requestURL);
                    built = started @ [Log InfoLevel [tid, url] ''Built request URL for native writer'']
                in case http_NewRequest lib ''PUT'' requestURL (Some cBodyAsJSON) of
                  Inl err \<Rightarrow>
                    (Some err,
                     built @ [Log ErrorLevel [(''error'', FError err), tid, url]
                                ''Error calling native writer. Ignoring message.''])
                | Inr request0 \<Rightarrow>
                    (let req = putRequest lib nw msg request0 in
                     case httpClient nw req of
                       Inl err \<Rightarrow>
                         (Some err,
                          built @ [HttpDo req (Inl err),
                                   Log ErrorLevel [(''error'', FError err), tid, url]
                                     ''Error calling native writer. Ignoring message.''])
                     | Inr resp \<Rightarrow>
                         if isNot2XXStatusCode (StatusCode resp)
                         then (Some (ErrorsNew ''Native writer returned non-200 code''),
                               built @ [HttpDo req (Inr resp),
                                        Log ErrorLevel
                                          [tid, (''responseStatusCode'', FInt (StatusCode resp))]
                                          ''Native writer returned non-200 code'']
                               @ properClose resp)
                         else (None,
                               built @ [HttpDo req (Inr resp),
                                        Log InfoLevel [tid, (''uuid'', FString contentUUID)]
                                          ''Successfully finished processing native publish event'']
                               @ properClose resp)))))"

subsection \<open>The connectivity check\<close>


subsection \<open>Publication events\<close>

text \<open>
  A \<^verbatim>\<open>consumer.Message\<close> of the queue consumer, as the tests of package
  \<^verbatim>\<open>queue\<close> build it: a map of headers and a body. A \<^verbatim>\<open>publicationEvent\<close> wraps one.
\<close>

record Message =
  Headers :: "string \<rightharpoonup> string"
  Body :: string

type_synonym publicationEvent = Message

text \<open>
  Modelled from the spec: \<^verbatim>\<open>publicationEvent.transactionID\<close>, whose code is not among
  the sources (only its tests are). It returns the value of the header
  \<^verbatim>\<open>X-Request-Id\<close>, or the empty string, and never fails.
\<close>

definition pe_transactionID :: "publicationEvent \<Rightarrow> string" where
  "pe_transactionID pe = index_map (Headers pe) ''X-Request-Id''"

text \<open>
  Modelled from the spec: \<^verbatim>\<open>publicationEvent.contentBody\<close>, whose code is not among
  the sources (only its tests are). It fails when the header \<^verbatim>\<open>Message-Timestamp\<close> is
  absent, whatever the body is; it fails with the decoder's error when the body is not
  JSON; otherwise it returns the decoded body with \<^verbatim>\<open>lastModified\<close> set to the
  timestamp and \<^verbatim>\<open>publishReference\<close> set to the transaction id. The text of the first
  error is the one \<^verbatim>\<open>TestGetContentBodyFailBecauseMissingTimstamp\<close> expects.
\<close>

definition contentBody :: "library \<Rightarrow> publicationEvent \<Rightarrow> error + json_object" where
  "contentBody lib pe =
     (case Headers pe ''Message-Timestamp'' of
        None \<Rightarrow> Inl (ErrorsNew ''Publish event does not contain timestamp'')
      | Some timestamp \<Rightarrow>
          (case json_Unmarshal lib (Body pe) of
             Inl err \<Rightarrow> Inl err
           | Inr decoded \<Rightarrow>
               Inr ((entries decoded)
                      (''lastModified'' \<mapsto> JString timestamp,
                       ''publishReference'' \<mapsto> JString (pe_transactionID pe)))))"

subsection \<open>Test data\<close>

text \<open>The constants and messages of the tests of package \<^verbatim>\<open>queue\<close>.\<close>

definition expectedTID :: string where
  "expectedTID = ''tid_test''"

definition expectedOriginSystemID :: string where
  "expectedOriginSystemID = ''http://cmdb.ft.com/systems/methode-web-pub''"

definition expectedTimestamp :: string where
  "expectedTimestamp = ''2017-02-16T12:56:16Z''"

definition someMsgHeaders :: "string \<rightharpoonup> string" where
  "someMsgHeaders =
     [''X-Request-Id'' \<mapsto> expectedTID,
      ''Origin-System-Id'' \<mapsto> expectedOriginSystemID,
      ''Message-Timestamp'' \<mapsto> expectedTimestamp]"

definition aMsg :: Message where
  \<open>aMsg = \<lparr>Headers = someMsgHeaders, Body = ''{"foo":"bar"}''\<rparr>\<close>

definition aMsgWithBadBody :: Message where
  "aMsgWithBadBody = \<lparr>Headers = someMsgHeaders, Body = ''I'm not JSON''\<rparr>"

definition aMsgWithoutTimestamp :: Message where
  \<open>aMsgWithoutTimestamp = \<lparr>Headers = Map.empty, Body = ''{"foo":"bar"}''\<rparr>\<close>

text \<open>
  A concrete library to run the model on these messages. Its decoder answers as
  \<^verbatim>\<open>encoding/json\<close> does on the bodies used here (the error text for the bad body is
  the one \<^verbatim>\<open>TestGetContentBodyFailBecauseBadBody\<close> expects); the header keys used here
  are in canonical form, and \<^verbatim>\<open>range\<close> visits the transaction id before the hash.
\<close>

definition abcBody :: string where
  \<open>abcBody = ''{"uuid":"abc-123"}''\<close>

definition test_Unmarshal :: "string \<Rightarrow> error + json_object option" where
  "test_Unmarshal s =
     (if s = Body aMsg then Inr (Some [''foo'' \<mapsto> JString ''bar''])
      else if s = abcBody then Inr (Some [''uuid'' \<mapsto> JString ''abc-123''])
      else if s = ''null'' then Inr None
      else if s = Body aMsgWithBadBody
        then Inl (Foreign ''invalid character 'I' looking for beginning of value'')
      else Inl (Foreign ''unexpected end of JSON input''))"

definition test_Marshal :: "json_object option \<Rightarrow> error + string" where
  \<open>test_Marshal b =
     (case b of
        None \<Rightarrow> Inr ''null''
      | Some es \<Rightarrow>
          (case es ''uuid'' of
             Some (JString u) \<Rightarrow> Inr (''{"uuid":"'' @ u @ ''"}'')
           | _ \<Rightarrow> Inr ''{}''))\<close>

definition test_url_Parse :: "string \<Rightarrow> error + string" where
  "test_url_Parse u =
     (if take 7 u = ''http://'' then Inr (takeWhile (\<lambda>c. c \<noteq> CHR ''/'') (drop 7 u))
      else Inr '''')"

definition ascii_space :: "char \<Rightarrow> bool" where
  "ascii_space c \<longleftrightarrow> c \<in> set [CHR 0x20, CHR 0x09, CHR 0x0A, CHR 0x0B, CHR 0x0C, CHR 0x0D]"

definition test_TrimSpace :: "string \<Rightarrow> string" where
  "test_TrimSpace s = rev (dropWhile ascii_space (rev (dropWhile ascii_space s)))"

definition test_range_map :: "(string \<rightharpoonup> string) \<Rightarrow> (string \<times> string) list" where
  "test_range_map m =
     List.map_filter (\<lambda>k. map_option (Pair k) (m k)) [transactionIDHeader, nativeHashHeader]"

definition test_lib :: library where
  "test_lib =
     \<lparr>json_Unmarshal = test_Unmarshal,
      json_Marshal = test_Marshal,
      url_Parse = test_url_Parse,
      CanonicalMIMEHeaderKey = (\<lambda>key. key),
      TrimSpace = test_TrimSpace,
      range_map = test_range_map,
      GTGPath = ''/__gtg''\<rparr>"

text \<open>
  The message that \<^verbatim>\<open>NewNativeMessage\<close> builds from the body of \<^verbatim>\<open>aMsg\<close>, which has
  no uuid; and the message for the content \<^verbatim>\<open>abc-123\<close>, as \<^verbatim>\<open>NewNativeMessage\<close> builds
  it from \<^verbatim>\<open>abcBody\<close> and as it is once \<^verbatim>\<open>AddHashHeader\<close> has given it its hash header.
\<close>

definition fooMsg :: NativeMessage where
  "fooMsg =
     \<lparr>body = Some [''foo'' \<mapsto> JString ''bar'',
                   ''lastModified'' \<mapsto> JString expectedTimestamp,
                   ''publishReference'' \<mapsto> JString expectedTID],
      headers = Some [transactionIDHeader \<mapsto> expectedTID]\<rparr>"

definition abcMsg0 :: NativeMessage where
  "abcMsg0 =
     \<lparr>body = Some [''uuid'' \<mapsto> JString ''abc-123'',
                   ''lastModified'' \<mapsto> JString expectedTimestamp,
                   ''publishReference'' \<mapsto> JString expectedTID],
      headers = Some [transactionIDHeader \<mapsto> expectedTID]\<rparr>"

definition abcMsg :: NativeMessage where
  "abcMsg = abcMsg0\<lparr>headers := Some [transactionIDHeader \<mapsto> expectedTID,
                                        nativeHashHeader \<mapsto> ''27f4d7d5'']\<rparr>"

text \<open>
  A content body parser that reads the field \<^verbatim>\<open>uuid\<close>, a collection mapping with
  one origin system mapped to a collection and one mapped to the empty string, a native
  store that answers every request with the given outcome, and a writer built on them.
\<close>

definition test_getUUID :: "json_object option \<Rightarrow> error + string" where
  "test_getUUID b =
     (case entries b ''uuid'' of
        Some (JString u) \<Rightarrow> if u = '''' then Inl (Foreign ''empty uuid'') else Inr u
      | _ \<Rightarrow> Inl (Foreign ''uuid not found''))"

definition test_collections :: "string \<rightharpoonup> string" where
  "test_collections =
     [expectedOriginSystemID \<mapsto> ''methode'',
      ''http://cmdb.ft.com/systems/retired'' \<mapsto> '''']"

definition answer :: "int \<Rightarrow> error + response" where
  "answer status = Inr \<lparr>StatusCode = status, RespBody = \<lparr>copy_err = None, close_err = None\<rparr>\<rparr>"

definition test_writer :: "(error + response) \<Rightarrow> nativeWriter" where
  "test_writer out =
     NewWriter (\<lambda>r. out) ''http://localhost:8080'' test_collections ''native-rw'' test_getUUID"


section \<open>Properties\<close>

subsection \<open>Running the model on the test data\<close>

lemma test_lib_simps:
  "json_Unmarshal test_lib = test_Unmarshal"
  "json_Marshal test_lib = test_Marshal"
  "url_Parse test_lib = test_url_Parse"
  "CanonicalMIMEHeaderKey test_lib key = key"
  "TrimSpace test_lib = test_TrimSpace"
  "range_map test_lib = test_range_map"
  "GTGPath test_lib = ''/__gtg''"
  by (simp_all add: test_lib_def)

lemma test_Unmarshal_simps:
  "test_Unmarshal (Body aMsg) = Inr (Some [''foo'' \<mapsto> JString ''bar''])"
  "test_Unmarshal abcBody = Inr (Some [''uuid'' \<mapsto> JString ''abc-123''])"
  "test_Unmarshal (Body aMsgWithBadBody)
     = Inl (Foreign ''invalid character 'I' looking for beginning of value'')"
  by (simp_all add: test_Unmarshal_def aMsg_def aMsgWithBadBody_def abcBody_def)

lemma test_NewNativeMessage:
  "NewNativeMessage test_lib (Body aMsg) expectedTimestamp expectedTID = Return (fooMsg, None)"
  "NewNativeMessage test_lib abcBody expectedTimestamp expectedTID = Return (abcMsg0, None)"
  "AddHashHeader ''27f4d7d5'' abcMsg0 = Return abcMsg"
  by (simp_all add: NewNativeMessage_def AddHashHeader_def Let_def entries_def
      test_lib_simps test_Unmarshal_simps fooMsg_def abcMsg0_def abcMsg_def)

lemma test_collections_simps:
  "collectionsOriginIdsMap (collections (test_writer out)) expectedOriginSystemID = Some ''methode''"
  "collectionsOriginIdsMap (collections (test_writer out)) ''http://cmdb.ft.com/systems/retired'' = Some ''''"
  "collectionsOriginIdsMap (collections (test_writer out)) '''' = None"
  by (simp_all add: test_writer_def NewWriter_def newNativeCollections_def test_collections_def
      expectedOriginSystemID_def)

lemma test_writer_simps:
  "address (test_writer out) = ''http://localhost:8080''"
  "hostHeader (test_writer out) = ''native-rw''"
  "httpClient (test_writer out) r = out"
  "bodyParser (test_writer out) = test_getUUID"
  by (simp_all add: test_writer_def NewWriter_def)

lemma abcMsg_simps:
  "body abcMsg = Some [''uuid'' \<mapsto> JString ''abc-123'',
                       ''lastModified'' \<mapsto> JString expectedTimestamp,
                       ''publishReference'' \<mapsto> JString expectedTID]"
  "headers abcMsg = Some [transactionIDHeader \<mapsto> expectedTID, nativeHashHeader \<mapsto> ''27f4d7d5'']"
  "transactionID abcMsg = ''tid_test''"
  by (simp_all add: abcMsg_def abcMsg0_def transactionID_def index_map_def entries_def
      expectedTID_def transactionIDHeader_def nativeHashHeader_def)

lemma test_run_abcMsg:
  "bodyParser (test_writer out) (body abcMsg) = Inr ''abc-123''"
  "json_Marshal test_lib (body abcMsg) = Inr abcBody"
  "http_NewRequest test_lib ''PUT'' (address (test_writer out) @ ''/'' @ ''content'' @ ''/'' @ ''abc-123'') b
     = Inr \<lparr>Method = ''PUT'', URL = ''http://localhost:8080/content/abc-123'', Header = Map.empty,
            Host = ''localhost:8080'', ReqBody = b\<rparr>"
  by (simp_all add: abcMsg_simps test_writer_simps test_getUUID_def test_lib_simps test_Marshal_def
      entries_def abcBody_def http_NewRequest_def test_url_Parse_def)

subsection \<open>Collection lookup\<close>

lemma getCollectionByOriginID_cases:
  "getCollectionByOriginID c originID =
     (case collectionsOriginIdsMap c originID of
        None \<Rightarrow> ('''', Some (ErrorsNew ''Collection not found''))
      | Some collection \<Rightarrow>
          if collection = '''' then ('''', Some (ErrorsNew ''Collection not found''))
          else (collection, None))"
  by (simp add: getCollectionByOriginID_def index_map_def Let_def split: option.split)

text \<open>
  Claim C5, as the code has it. \<^verbatim>\<open>GetCollectionByOriginID\<close> is a lookup in the
  collection mapping and nothing else. It fails with the error "Collection not found"
  (and the empty string as the name) when the id is not a key of the mapping or is
  mapped to the empty string; a key mapped to a non-empty name yields that name and no
  error; whenever it succeeds, the name is the non-empty entry of the mapping, so an id
  that is not mapped never yields a name; and two writers with the same mapping answer
  alike, whatever their address, host header, client and parser are. The empty id is
  looked up like any other id.
\<close>

theorem GetCollectionByOriginID_lookup:
  "(collectionsOriginIdsMap (collections nw) originID = None \<longrightarrow>
      GetCollectionByOriginID nw originID = ('''', Some (ErrorsNew ''Collection not found'')))
   \<and> (collectionsOriginIdsMap (collections nw) originID = Some '''' \<longrightarrow>
      GetCollectionByOriginID nw originID = ('''', Some (ErrorsNew ''Collection not found'')))
   \<and> (\<forall>collection. collectionsOriginIdsMap (collections nw) originID = Some collection \<longrightarrow>
        collection \<noteq> '''' \<longrightarrow> GetCollectionByOriginID nw originID = (collection, None))
   \<and> (snd (GetCollectionByOriginID nw originID) = None \<longrightarrow>
        collectionsOriginIdsMap (collections nw) originID = Some (fst (GetCollectionByOriginID nw originID))
        \<and> fst (GetCollectionByOriginID nw originID) \<noteq> '''')
   \<and> (collections nw' = collections nw \<longrightarrow>
        GetCollectionByOriginID nw' originID = GetCollectionByOriginID nw originID)"
  by (simp add: GetCollectionByOriginID_def getCollectionByOriginID_cases split: option.split)

theorem GetCollectionByOriginID_lookup_witness:
  "GetCollectionByOriginID (test_writer (answer 200)) expectedOriginSystemID = (''methode'', None)
   \<and> GetCollectionByOriginID (test_writer (answer 200)) '''' = ('''', Some (ErrorsNew ''Collection not found''))
   \<and> GetCollectionByOriginID (test_writer (Inl (Foreign ''timeout''))) expectedOriginSystemID
       = (''methode'', None)"
proof -
  let ?nw = "test_writer (answer 200)" and ?nw' = "test_writer (Inl (Foreign ''timeout''))"
  have same: "collections ?nw' = collections ?nw"
    by (simp add: test_writer_def NewWriter_def)
  have named: "''methode'' \<noteq> ''''"
    by simp
  have "GetCollectionByOriginID ?nw expectedOriginSystemID = (''methode'', None)
        \<and> GetCollectionByOriginID ?nw' expectedOriginSystemID
            = GetCollectionByOriginID ?nw expectedOriginSystemID"
    using GetCollectionByOriginID_lookup [of ?nw expectedOriginSystemID ?nw']
      test_collections_simps(1) [of "answer 200"] same named
    by blast
  moreover have "GetCollectionByOriginID ?nw '''' = ('''', Some (ErrorsNew ''Collection not found''))"
    using GetCollectionByOriginID_lookup [of ?nw "''''" ?nw]
      test_collections_simps(3) [of "answer 200"]
    by blast
  ultimately show ?thesis
    by simp
qed

text \<open>
  The empty id does not fail by itself: with a mapping that has the empty string as a
  key, the lookup of the empty id succeeds.
\<close>

theorem GetCollectionByOriginID_empty_id_counterexample:
  "GetCollectionByOriginID
     (NewWriter (\<lambda>r. answer 200) ''http://localhost:8080'' ['''' \<mapsto> ''content''] ''native-rw''
        test_getUUID)
     ''''
   = (''content'', None)"
  by (simp add: GetCollectionByOriginID_def getCollectionByOriginID_def index_map_def
      NewWriter_def newNativeCollections_def)

text \<open>
  Claim C10. \<^verbatim>\<open>GetCollectionByOriginID\<close> returns the not-found error exactly when
  indexing the collection mapping at the id gives the empty string, and no error exactly
  when it gives a non-empty string. In particular an id that is a key mapped to the
  empty string gets the same result as an id that is not a key.
\<close>

theorem GetCollectionByOriginID_not_found_iff_empty:
  "(snd (GetCollectionByOriginID nw originID) = Some (ErrorsNew ''Collection not found''))
     = (index_map (collectionsOriginIdsMap (collections nw)) originID = '''')
   \<and> (snd (GetCollectionByOriginID nw originID) = None)
     = (index_map (collectionsOriginIdsMap (collections nw)) originID \<noteq> '''')
   \<and> (collectionsOriginIdsMap (collections nw) originID = Some '''' \<longrightarrow>
        collectionsOriginIdsMap (collections nw') originID' = None \<longrightarrow>
        GetCollectionByOriginID nw originID = GetCollectionByOriginID nw' originID'
        \<and> GetCollectionByOriginID nw originID = ('''', Some (ErrorsNew ''Collection not found'')))"
  by (simp add: GetCollectionByOriginID_def getCollectionByOriginID_def index_map_def Let_def)

theorem GetCollectionByOriginID_not_found_iff_empty_witness:
  "GetCollectionByOriginID (test_writer (answer 200)) ''http://cmdb.ft.com/systems/retired''
     = ('''', Some (ErrorsNew ''Collection not found''))
   \<and> GetCollectionByOriginID (test_writer (answer 200)) ''http://cmdb.ft.com/systems/retired''
     = GetCollectionByOriginID (test_writer (answer 200)) ''''
   \<and> snd (GetCollectionByOriginID (test_writer (answer 200)) expectedOriginSystemID) = None"
proof -
  let ?nw = "test_writer (answer 200)"
  have mapped: "index_map (collectionsOriginIdsMap (collections ?nw)) expectedOriginSystemID \<noteq> ''''"
    by (simp add: index_map_def test_collections_simps)
  have ok: "snd (GetCollectionByOriginID ?nw expectedOriginSystemID) = None"
    using GetCollectionByOriginID_not_found_iff_empty [of ?nw expectedOriginSystemID ?nw "''''"] mapped
    by blast
  have "GetCollectionByOriginID ?nw ''http://cmdb.ft.com/systems/retired''
          = GetCollectionByOriginID ?nw ''''
        \<and> GetCollectionByOriginID ?nw ''http://cmdb.ft.com/systems/retired''
          = ('''', Some (ErrorsNew ''Collection not found''))"
    using GetCollectionByOriginID_not_found_iff_empty
            [of ?nw "''http://cmdb.ft.com/systems/retired''" ?nw "''''"]
          test_collections_simps(2,3) [of "answer 200"]
    by blast
  with ok show ?thesis
    by blast
qed

subsection \<open>Building a message\<close>

text \<open>
  Claim C2. When the content body decodes to a JSON object, \<^verbatim>\<open>NewNativeMessage\<close>
  returns no error and a message whose body has exactly the fields of the decoded
  object plus \<^verbatim>\<open>lastModified\<close> and \<^verbatim>\<open>publishReference\<close>: \<^verbatim>\<open>lastModified\<close> is the
  timestamp it was given (the value of the timestamp header, empty or not),
  \<^verbatim>\<open>publishReference\<close> is the transaction id, and every other field is as decoded. For
  the body, timestamp and transaction id of the test message the enriched body is
  \<^verbatim>\<open>foo\<close>, \<^verbatim>\<open>lastModified\<close> and \<^verbatim>\<open>publishReference\<close> with the values the test expects.
\<close>

theorem NewNativeMessage_enriches_body:
  assumes "json_Unmarshal lib content = Inr (Some original)"
  shows "\<exists>enriched.
      NewNativeMessage lib content timestamp tid
        = Return (\<lparr>body = Some enriched, headers = Some [transactionIDHeader \<mapsto> tid]\<rparr>, None)
    \<and> enriched
        = original(''lastModified'' \<mapsto> JString timestamp, ''publishReference'' \<mapsto> JString tid)
    \<and> dom enriched = dom original \<union> {''lastModified'', ''publishReference''}
    \<and> enriched ''lastModified'' = Some (JString timestamp)
    \<and> enriched ''publishReference'' = Some (JString tid)
    \<and> (\<forall>field. field \<noteq> ''lastModified'' \<longrightarrow> field \<noteq> ''publishReference'' \<longrightarrow>
          enriched field = original field)"
  using assms by (auto simp add: NewNativeMessage_def Let_def entries_def)

theorem NewNativeMessage_enriches_body_witness:
  "NewNativeMessage test_lib (Body aMsg) ''2017-02-16T12:56:16Z'' ''tid_test''
     = Return
         (\<lparr>body = Some [''foo'' \<mapsto> JString ''bar'',
                        ''lastModified'' \<mapsto> JString ''2017-02-16T12:56:16Z'',
                        ''publishReference'' \<mapsto> JString ''tid_test''],
           headers = Some [''X-Request-Id'' \<mapsto> ''tid_test'']\<rparr>,
          None)"
proof -
  have "json_Unmarshal test_lib (Body aMsg) = Inr (Some [''foo'' \<mapsto> JString ''bar''])"
    by (simp add: test_lib_simps test_Unmarshal_simps)
  from NewNativeMessage_enriches_body [OF this, of "''2017-02-16T12:56:16Z''" "''tid_test''"]
  show ?thesis
    by (auto simp add: transactionIDHeader_def)
qed

text \<open>
  The JSON value \<^verbatim>\<open>null\<close> is valid JSON and no object: the decoder leaves the map
  nil and \<^verbatim>\<open>NewNativeMessage\<close> panics.
\<close>

lemma NewNativeMessage_nil_map_panics:
  assumes "json_Unmarshal lib content = Inr None"
  shows "NewNativeMessage lib content timestamp tid = Panic ''assignment to entry in nil map''"
  using assms by (simp add: NewNativeMessage_def)

text \<open>
  Claim C7. When the content body is not valid JSON, \<^verbatim>\<open>NewNativeMessage\<close> fails, and
  the error it returns is the decoder's own error, unchanged, so its message is the
  decoder's diagnostic. For the body \<^verbatim>\<open>I'm not JSON\<close> that is the syntax error naming
  the character \<^verbatim>\<open>I\<close>.
\<close>

theorem NewNativeMessage_returns_decoder_error:
  assumes "json_Unmarshal lib content = Inl err"
  shows "NewNativeMessage lib content timestamp tid
           = Return (\<lparr>body = None, headers = None\<rparr>, Some err)"
  using assms by (simp add: NewNativeMessage_def)

theorem NewNativeMessage_returns_decoder_error_witness:
  "NewNativeMessage test_lib (Body aMsgWithBadBody) expectedTimestamp expectedTID
     = Return (\<lparr>body = None, headers = None\<rparr>,
               Some (Foreign ''invalid character 'I' looking for beginning of value''))"
proof -
  have "json_Unmarshal test_lib (Body aMsgWithBadBody)
          = Inl (Foreign ''invalid character 'I' looking for beginning of value'')"
    by (simp add: test_lib_simps test_Unmarshal_simps)
  from NewNativeMessage_returns_decoder_error [OF this, of expectedTimestamp expectedTID]
  show ?thesis .
qed

text \<open>
  Claim C3. On a publication event without the header \<^verbatim>\<open>Message-Timestamp\<close>,
  \<^verbatim>\<open>contentBody\<close> fails with the error that says the timestamp is missing, whatever
  the body is and whatever the decoder would make of it.
\<close>

theorem contentBody_without_timestamp_fails:
  assumes "Headers pe ''Message-Timestamp'' = None"
  shows "contentBody lib pe = Inl (ErrorsNew ''Publish event does not contain timestamp'')"
  using assms by (simp add: contentBody_def)

theorem contentBody_without_timestamp_fails_witness:
  "contentBody test_lib aMsgWithoutTimestamp
     = Inl (ErrorsNew ''Publish event does not contain timestamp'')
   \<and> contentBody test_lib (aMsgWithBadBody\<lparr>Headers := Map.empty\<rparr>)
     = Inl (ErrorsNew ''Publish event does not contain timestamp'')"
proof -
  have "Headers aMsgWithoutTimestamp ''Message-Timestamp'' = None"
    by (simp add: aMsgWithoutTimestamp_def)
  moreover have "Headers (aMsgWithBadBody\<lparr>Headers := Map.empty\<rparr>) ''Message-Timestamp'' = None"
    by simp
  ultimately show ?thesis
    using contentBody_without_timestamp_fails [of aMsgWithoutTimestamp test_lib]
      contentBody_without_timestamp_fails [of "aMsgWithBadBody\<lparr>Headers := Map.empty\<rparr>" test_lib]
    by blast
qed

subsection \<open>The request a write sends\<close>

lemma Header_Set_fields:
  "Header (Header_Set lib k v r) = (Header r)(CanonicalMIMEHeaderKey lib k \<mapsto> v)"
  "Method (Header_Set lib k v r) = Method r"
  "URL (Header_Set lib k v r) = URL r"
  "Host (Header_Set lib k v r) = Host r"
  "ReqBody (Header_Set lib k v r) = ReqBody r"
  by (simp_all add: Header_Set_def)

lemma fold_Header_Set_fields:
  "Method (fold (\<lambda>(h, v). Header_Set lib h v) kvs r) = Method r"
  "URL (fold (\<lambda>(h, v). Header_Set lib h v) kvs r) = URL r"
  "Host (fold (\<lambda>(h, v). Header_Set lib h v) kvs r) = Host r"
  "ReqBody (fold (\<lambda>(h, v). Header_Set lib h v) kvs r) = ReqBody r"
  by (induction kvs arbitrary: r; simp add: Header_Set_fields split_def)+

lemma fold_Header_Set_Header:
  assumes "distinct (map fst kvs)"
    and "\<And>k. k \<in> fst ` set kvs \<Longrightarrow> CanonicalMIMEHeaderKey lib k = k"
  shows "Header (fold (\<lambda>(h, v). Header_Set lib h v) kvs r) key
           = (case map_of kvs key of Some v \<Rightarrow> Some v | None \<Rightarrow> Header r key)"
  using assms
proof (induction kvs arbitrary: r)
  case Nil
  then show ?case by simp
next
  case (Cons kv kvs)
  obtain k v where kv: "kv = (k, v)" by (cases kv)
  from Cons.prems kv have fresh: "map_of kvs k = None"
    by (simp add: map_of_eq_None_iff)
  from Cons.prems kv have canon: "CanonicalMIMEHeaderKey lib k = k"
    by simp
  from Cons.prems have "distinct (map fst kvs)"
    and "\<And>k. k \<in> fst ` set kvs \<Longrightarrow> CanonicalMIMEHeaderKey lib k = k"
    by simp_all
  from Cons.IH [OF this]
  have "Header (fold (\<lambda>(h, v). Header_Set lib h v) kvs (Header_Set lib k v r)) key
          = (case map_of kvs key of Some v \<Rightarrow> Some v | None \<Rightarrow> Header (Header_Set lib k v r) key)" .
  with fresh canon kv show ?case
    by (simp add: Header_Set_fields split: option.split)
qed

lemma putRequest_fields:
  "Method (putRequest lib nw msg r0) = Method r0"
  "URL (putRequest lib nw msg r0) = URL r0"
  "ReqBody (putRequest lib nw msg r0) = ReqBody r0"
  "Host (putRequest lib nw msg r0)
     = (if 0 < length (TrimSpace lib (hostHeader nw)) then hostHeader nw else Host r0)"
  by (simp_all add: putRequest_def Let_def fold_Header_Set_fields Header_Set_fields)

lemma putRequest_Header:
  assumes "map_of (range_map lib (entries (headers msg))) = entries (headers msg)"
    and "distinct (map fst (range_map lib (entries (headers msg))))"
    and "\<And>k. k \<in> dom (entries (headers msg)) \<Longrightarrow> CanonicalMIMEHeaderKey lib k = k"
  shows "Header (putRequest lib nw msg r0) key
           = (case entries (headers msg) key of
                Some v \<Rightarrow> Some v
              | None \<Rightarrow> ((Header r0)(CanonicalMIMEHeaderKey lib ''Content-Type'' \<mapsto> ''application/json'')) key)"
proof -
  let ?kvs = "range_map lib (entries (headers msg))"
  have "fst ` set ?kvs = dom (entries (headers msg))"
    using assms(1) by (metis dom_map_of_conv_image_fst)
  with assms(3) have "\<And>k. k \<in> fst ` set ?kvs \<Longrightarrow> CanonicalMIMEHeaderKey lib k = k"
    by simp
  from fold_Header_Set_Header [OF assms(2) this]
  have "Header (fold (\<lambda>(h, v). Header_Set lib h v) ?kvs
                  (Header_Set lib ''Content-Type'' ''application/json'' r0)) key
          = (case map_of ?kvs key of
               Some v \<Rightarrow> Some v
             | None \<Rightarrow> Header (Header_Set lib ''Content-Type'' ''application/json'' r0) key)" .
  then show ?thesis
    by (simp add: putRequest_def Let_def assms(1) Header_Set_fields split: option.split)
qed

lemma http_NewRequest_fields:
  assumes "http_NewRequest lib method url reqBody = Inr r0"
  shows "Method r0 = method" "URL r0 = url" "Header r0 = Map.empty" "ReqBody r0 = reqBody"
    "url_Parse lib url = Inr (Host r0)"
  using assms by (auto simp add: http_NewRequest_def split: sum.splits)

subsection \<open>The paths of a write\<close>

lemma properClose_body_calls:
  "filter is_body_call (properClose resp) = [IoCopyDiscard, BodyClose]"
  "filter is_HttpDo (properClose resp) = []"
  by (simp_all add: properClose_def split: option.split)

lemma HttpDo_notin_properClose: "HttpDo req out \<notin> set (properClose resp)"
  by (simp add: properClose_def split: option.split)

lemma WriteToCollection_no_uuid:
  assumes "bodyParser nw (body msg) = Inl err"
  shows "WriteToCollection lib nw msg collection
    = (Some err,
       [Log ErrorLevel [(''transaction_id'', FString (transactionID msg)), (''error'', FError err)]
          ''Error extracting uuid. Ignoring message.''])"
  using assms by (simp add: WriteToCollection_def)

lemma WriteToCollection_failed:
  assumes "bodyParser nw (body msg) = Inr contentUUID"
    and "json_Marshal lib (body msg) = Inr cBodyAsJSON"
    and "http_NewRequest lib ''PUT'' (address nw @ ''/'' @ collection @ ''/'' @ contentUUID)
           (Some cBodyAsJSON) = Inr request0"
    and "httpClient nw (putRequest lib nw msg request0) = Inl err"
  shows "WriteToCollection lib nw msg collection
    = (Some err,
       [Log InfoLevel
          [(''transaction_id'', FString (transactionID msg)), (''uuid'', FString contentUUID)]
          ''Start processing native publish event'',
        Log InfoLevel
          [(''transaction_id'', FString (transactionID msg)),
           (''requestURL'', FString (address nw @ ''/'' @ collection @ ''/'' @ contentUUID))]
          ''Built request URL for native writer'',
        HttpDo (putRequest lib nw msg request0) (Inl err),
        Log ErrorLevel
          [(''error'', FError err), (''transaction_id'', FString (transactionID msg)),
           (''requestURL'', FString (address nw @ ''/'' @ collection @ ''/'' @ contentUUID))]
          ''Error calling native writer. Ignoring message.''])"
  using assms by (simp add: WriteToCollection_def Let_def)

lemma WriteToCollection_answered:
  assumes "bodyParser nw (body msg) = Inr contentUUID"
    and "json_Marshal lib (body msg) = Inr cBodyAsJSON"
    and "http_NewRequest lib ''PUT'' (address nw @ ''/'' @ collection @ ''/'' @ contentUUID)
           (Some cBodyAsJSON) = Inr request0"
    and "httpClient nw (putRequest lib nw msg request0) = Inr resp"
  shows "WriteToCollection lib nw msg collection
    = (if isNot2XXStatusCode (StatusCode resp)
       then Some (ErrorsNew ''Native writer returned non-200 code'') else None,
       [Log InfoLevel
          [(''transaction_id'', FString (transactionID msg)), (''uuid'', FString contentUUID)]
          ''Start processing native publish event'',
        Log InfoLevel
          [(''transaction_id'', FString (transactionID msg)),
           (''requestURL'', FString (address nw @ ''/'' @ collection @ ''/'' @ contentUUID))]
          ''Built request URL for native writer'',
        HttpDo (putRequest lib nw msg request0) (Inr resp),
        if isNot2XXStatusCode (StatusCode resp)
        then Log ErrorLevel
               [(''transaction_id'', FString (transactionID msg)),
                (''responseStatusCode'', FInt (StatusCode resp))]
               ''Native writer returned non-200 code''
        else Log InfoLevel
               [(''transaction_id'', FString (transactionID msg)), (''uuid'', FString contentUUID)]
               ''Successfully finished processing native publish event'']
       @ properClose resp)"
  using assms by (simp add: WriteToCollection_def Let_def)

lemma WriteToCollection_HttpDoD:
  assumes "HttpDo req out \<in> set (snd (WriteToCollection lib nw msg collection))"
  shows "\<exists>contentUUID cBodyAsJSON request0.
     bodyParser nw (body msg) = Inr contentUUID
     \<and> json_Marshal lib (body msg) = Inr cBodyAsJSON
     \<and> http_NewRequest lib ''PUT'' (address nw @ ''/'' @ collection @ ''/'' @ contentUUID)
           (Some cBodyAsJSON) = Inr request0
     \<and> req = putRequest lib nw msg request0
     \<and> out = httpClient nw req"
  using assms
  by (auto simp add: WriteToCollection_def Let_def HttpDo_notin_properClose
      split: sum.splits if_splits)

lemma WriteToCollection_okD:
  assumes "fst (WriteToCollection lib nw msg collection) = None"
  shows "\<exists>contentUUID cBodyAsJSON request0 resp.
     bodyParser nw (body msg) = Inr contentUUID
     \<and> json_Marshal lib (body msg) = Inr cBodyAsJSON
     \<and> http_NewRequest lib ''PUT'' (address nw @ ''/'' @ collection @ ''/'' @ contentUUID)
           (Some cBodyAsJSON) = Inr request0
     \<and> httpClient nw (putRequest lib nw msg request0) = Inr resp
     \<and> \<not> isNot2XXStatusCode (StatusCode resp)"
  using assms
  by (auto simp add: WriteToCollection_def Let_def split: sum.splits if_splits)

lemma test_write_abcMsg:
  "WriteToCollection test_lib (test_writer (Inr resp)) abcMsg ''content''
    = (if isNot2XXStatusCode (StatusCode resp)
       then Some (ErrorsNew ''Native writer returned non-200 code'') else None,
       [Log InfoLevel
          [(''transaction_id'', FString (transactionID abcMsg)), (''uuid'', FString ''abc-123'')]
          ''Start processing native publish event'',
        Log InfoLevel
          [(''transaction_id'', FString (transactionID abcMsg)),
           (''requestURL'',
            FString (address (test_writer (Inr resp)) @ ''/'' @ ''content'' @ ''/'' @ ''abc-123''))]
          ''Built request URL for native writer'',
        HttpDo (putRequest test_lib (test_writer (Inr resp)) abcMsg
                  \<lparr>Method = ''PUT'', URL = ''http://localhost:8080/content/abc-123'',
                   Header = Map.empty, Host = ''localhost:8080'', ReqBody = Some abcBody\<rparr>)
          (Inr resp),
        if isNot2XXStatusCode (StatusCode resp)
        then Log ErrorLevel
               [(''transaction_id'', FString (transactionID abcMsg)),
                (''responseStatusCode'', FInt (StatusCode resp))]
               ''Native writer returned non-200 code''
        else Log InfoLevel
               [(''transaction_id'', FString (transactionID abcMsg)), (''uuid'', FString ''abc-123'')]
               ''Successfully finished processing native publish event'']
       @ properClose resp)"
  by (rule WriteToCollection_answered [OF test_run_abcMsg]) (simp add: test_writer_simps)

text \<open>The request that the write of \<^verbatim>\<open>abcMsg\<close> sends, in full.\<close>

lemma test_putRequest_abcMsg:
  "putRequest test_lib (test_writer out) abcMsg
     \<lparr>Method = ''PUT'', URL = ''http://localhost:8080/content/abc-123'', Header = Map.empty,
      Host = ''localhost:8080'', ReqBody = Some abcBody\<rparr>
   = \<lparr>Method = ''PUT'', URL = ''http://localhost:8080/content/abc-123'',
      Header = [''Content-Type'' \<mapsto> ''application/json'',
                ''X-Request-Id'' \<mapsto> ''tid_test'',
                ''X-Native-Hash'' \<mapsto> ''27f4d7d5''],
      Host = ''native-rw'', ReqBody = Some abcBody\<rparr>"
  by (simp add: putRequest_def Let_def Header_Set_def test_lib_simps test_writer_simps
      test_range_map_def abcMsg_simps entries_def transactionIDHeader_def nativeHashHeader_def
      expectedTID_def test_TrimSpace_def ascii_space_def)

text \<open>
  Claim C8. When \<^verbatim>\<open>getUUID\<close> fails on the body of the message, \<^verbatim>\<open>WriteToCollection\<close>
  returns that very error and sends no HTTP request: all it does is write one log entry.
\<close>

theorem WriteToCollection_no_uuid_no_request:
  assumes "bodyParser nw (body msg) = Inl err"
  shows "fst (WriteToCollection lib nw msg collection) = Some err
    \<and> filter is_HttpDo (snd (WriteToCollection lib nw msg collection)) = []
    \<and> snd (WriteToCollection lib nw msg collection)
        = [Log ErrorLevel [(''transaction_id'', FString (transactionID msg)), (''error'', FError err)]
             ''Error extracting uuid. Ignoring message.'']"
  by (simp add: WriteToCollection_no_uuid [OF assms])

theorem WriteToCollection_no_uuid_no_request_witness:
  "WriteToCollection test_lib (test_writer (answer 200)) fooMsg ''content''
     = (Some (Foreign ''uuid not found''),
        [Log ErrorLevel
           [(''transaction_id'', FString ''tid_test''), (''error'', FError (Foreign ''uuid not found''))]
           ''Error extracting uuid. Ignoring message.''])
   \<and> filter is_HttpDo (snd (WriteToCollection test_lib (test_writer (answer 200)) fooMsg ''content''))
     = []"
proof -
  have "bodyParser (test_writer (answer 200)) (body fooMsg) = Inl (Foreign ''uuid not found'')"
    by (simp add: test_writer_simps test_getUUID_def fooMsg_def entries_def)
  moreover have "transactionID fooMsg = ''tid_test''"
    by (simp add: transactionID_def index_map_def entries_def fooMsg_def expectedTID_def)
  ultimately show ?thesis
    using WriteToCollection_no_uuid_no_request
      [of "test_writer (answer 200)" fooMsg "Foreign ''uuid not found''" test_lib "''content''"]
    by (simp add: prod_eq_iff)
qed

text \<open>
  Claim C1, as the code has it. When the uuid is extracted, the body is marshalled and
  the request is built, \<^verbatim>\<open>WriteToCollection\<close> returns according to what the client
  gives back: the client's own error when the transport fails; nil for a response whose
  status is in [200,300); and for every other status the one error "Native writer
  returned non-200 code", which is the same for every status. The status code goes to
  the log entry, in the field \<^verbatim>\<open>responseStatusCode\<close>, and not into the error.
\<close>

theorem WriteToCollection_classifies_response:
  assumes "bodyParser nw (body msg) = Inr contentUUID"
    and "json_Marshal lib (body msg) = Inr cBodyAsJSON"
    and "http_NewRequest lib ''PUT'' (address nw @ ''/'' @ collection @ ''/'' @ contentUUID)
           (Some cBodyAsJSON) = Inr request0"
  shows "fst (WriteToCollection lib nw msg collection)
      = (case httpClient nw (putRequest lib nw msg request0) of
           Inl cause \<Rightarrow> Some cause
         | Inr resp \<Rightarrow>
             if StatusCode resp < 200 \<or> 300 \<le> StatusCode resp
             then Some (ErrorsNew ''Native writer returned non-200 code'')
             else None)
    \<and> (\<forall>resp. httpClient nw (putRequest lib nw msg request0) = Inr resp \<longrightarrow>
          (StatusCode resp < 200 \<or> 300 \<le> StatusCode resp) \<longrightarrow>
          Log ErrorLevel
            [(''transaction_id'', FString (transactionID msg)),
             (''responseStatusCode'', FInt (StatusCode resp))]
            ''Native writer returned non-200 code''
          \<in> set (snd (WriteToCollection lib nw msg collection)))"
proof (cases "httpClient nw (putRequest lib nw msg request0)")
  case (Inl cause)
  with WriteToCollection_failed [OF assms this] show ?thesis
    by simp
next
  case (Inr resp)
  with WriteToCollection_answered [OF assms this] show ?thesis
    by (simp add: isNot2XXStatusCode_def)
qed

theorem WriteToCollection_classifies_response_witness:
  "fst (WriteToCollection test_lib (test_writer (answer 204)) abcMsg ''content'') = None
   \<and> fst (WriteToCollection test_lib (test_writer (answer 503)) abcMsg ''content'')
       = Some (ErrorsNew ''Native writer returned non-200 code'')
   \<and> Log ErrorLevel [(''transaction_id'', FString ''tid_test''), (''responseStatusCode'', FInt 503)]
        ''Native writer returned non-200 code''
       \<in> set (snd (WriteToCollection test_lib (test_writer (answer 503)) abcMsg ''content''))
   \<and> fst (WriteToCollection test_lib (test_writer (Inl (Foreign ''connection refused''))) abcMsg ''content'')
       = Some (Foreign ''connection refused'')"
proof -
  note tid = abcMsg_simps(3)
  have "fst (WriteToCollection test_lib (test_writer (answer 204)) abcMsg ''content'') = None"
    using WriteToCollection_classifies_response
      [of "test_writer (answer 204)" abcMsg "''abc-123''" test_lib abcBody "''content''",
       OF test_run_abcMsg]
    by (simp add: test_writer_simps answer_def)
  moreover
  have "fst (WriteToCollection test_lib (test_writer (answer 503)) abcMsg ''content'')
       = Some (ErrorsNew ''Native writer returned non-200 code'')
     \<and> Log ErrorLevel [(''transaction_id'', FString ''tid_test''), (''responseStatusCode'', FInt 503)]
        ''Native writer returned non-200 code''
       \<in> set (snd (WriteToCollection test_lib (test_writer (answer 503)) abcMsg ''content''))"
    using WriteToCollection_classifies_response
      [of "test_writer (answer 503)" abcMsg "''abc-123''" test_lib abcBody "''content''",
       OF test_run_abcMsg]
    by (simp add: test_writer_simps answer_def tid)
  moreover
  have "fst (WriteToCollection test_lib (test_writer (Inl (Foreign ''connection refused''))) abcMsg ''content'')
       = Some (Foreign ''connection refused'')"
    using WriteToCollection_classifies_response
      [of "test_writer (Inl (Foreign ''connection refused''))" abcMsg "''abc-123''" test_lib abcBody
          "''content''", OF test_run_abcMsg]
    by (simp add: test_writer_simps)
  ultimately show ?thesis
    by blast
qed

text \<open>
  The error does not carry the status code: the statuses 404 and 500 give the same
  error value.
\<close>

theorem WriteToCollection_status_not_in_error_counterexample:
  "fst (WriteToCollection test_lib (test_writer (answer 404)) abcMsg ''content'')
     = Some (ErrorsNew ''Native writer returned non-200 code'')
   \<and> fst (WriteToCollection test_lib (test_writer (answer 500)) abcMsg ''content'')
     = Some (ErrorsNew ''Native writer returned non-200 code'')"
proof -
  have "fst (WriteToCollection test_lib (test_writer (answer status)) abcMsg ''content'')
          = Some (ErrorsNew ''Native writer returned non-200 code'')"
    if "isNot2XXStatusCode status" for status
    using WriteToCollection_answered
      [of "test_writer (answer status)" abcMsg "''abc-123''" test_lib abcBody "''content''",
       OF test_run_abcMsg] that
    by (simp add: test_writer_simps answer_def)
  from this [of 404] this [of 500] show ?thesis
    by (simp add: isNot2XXStatusCode_def)
qed

text \<open>
  Claim C4. Whenever \<^verbatim>\<open>WriteToCollection\<close> has received a response, whatever its
  status, the last thing it does is \<^verbatim>\<open>properClose\<close> on that response: the body is
  copied to \<^verbatim>\<open>ioutil.Discard\<close> and then closed, once each, after the request and before
  the function returns, and nothing else touches the body.
\<close>

theorem WriteToCollection_drains_and_closes:
  assumes "HttpDo req (Inr resp) \<in> set (snd (WriteToCollection lib nw msg collection))"
  shows "filter is_body_call (snd (WriteToCollection lib nw msg collection))
           = [IoCopyDiscard, BodyClose]
    \<and> (\<exists>before. snd (WriteToCollection lib nw msg collection) = before @ properClose resp
          \<and> HttpDo req (Inr resp) \<in> set before
          \<and> filter is_body_call before = [])"
proof -
  from WriteToCollection_HttpDoD [OF assms] obtain contentUUID cBodyAsJSON request0 where
    sent: "bodyParser nw (body msg) = Inr contentUUID"
      "json_Marshal lib (body msg) = Inr cBodyAsJSON"
      "http_NewRequest lib ''PUT'' (address nw @ ''/'' @ collection @ ''/'' @ contentUUID)
         (Some cBodyAsJSON) = Inr request0"
    and req: "req = putRequest lib nw msg request0"
    and resp: "httpClient nw req = Inr resp"
    by metis
  let ?before =
    "[Log InfoLevel
        [(''transaction_id'', FString (transactionID msg)), (''uuid'', FString contentUUID)]
        ''Start processing native publish event'',
      Log InfoLevel
        [(''transaction_id'', FString (transactionID msg)),
         (''requestURL'', FString (address nw @ ''/'' @ collection @ ''/'' @ contentUUID))]
        ''Built request URL for native writer'',
      HttpDo req (Inr resp),
      if isNot2XXStatusCode (StatusCode resp)
      then Log ErrorLevel
             [(''transaction_id'', FString (transactionID msg)),
              (''responseStatusCode'', FInt (StatusCode resp))]
             ''Native writer returned non-200 code''
      else Log InfoLevel
             [(''transaction_id'', FString (transactionID msg)), (''uuid'', FString contentUUID)]
             ''Successfully finished processing native publish event'']"
  from resp req have "httpClient nw (putRequest lib nw msg request0) = Inr resp"
    by simp
  from WriteToCollection_answered [OF sent this] req
  have run: "snd (WriteToCollection lib nw msg collection) = ?before @ properClose resp"
    by simp
  have before: "HttpDo req (Inr resp) \<in> set ?before" "filter is_body_call ?before = []"
    by simp_all
  have "filter is_body_call (snd (WriteToCollection lib nw msg collection))
          = [IoCopyDiscard, BodyClose]"
    unfolding run filter_append before(2) properClose_body_calls(1) by simp
  with run before show ?thesis
    by blast
qed

theorem WriteToCollection_drains_and_closes_witness:
  "filter is_body_call
     (snd (WriteToCollection test_lib (test_writer (answer 200)) abcMsg ''content''))
     = [IoCopyDiscard, BodyClose]
   \<and> filter is_body_call
     (snd (WriteToCollection test_lib
        (test_writer (Inr \<lparr>StatusCode = 500,
           RespBody = \<lparr>copy_err = Some (Foreign ''unexpected EOF''), close_err = None\<rparr>\<rparr>))
        abcMsg ''content''))
     = [IoCopyDiscard, BodyClose]"
proof -
  have sent: "HttpDo (putRequest test_lib (test_writer (Inr resp)) abcMsg
                  \<lparr>Method = ''PUT'', URL = ''http://localhost:8080/content/abc-123'',
                   Header = Map.empty, Host = ''localhost:8080'', ReqBody = Some abcBody\<rparr>)
          (Inr resp)
        \<in> set (snd (WriteToCollection test_lib (test_writer (Inr resp)) abcMsg ''content''))"
    for resp
    by (simp add: test_write_abcMsg)
  from WriteToCollection_drains_and_closes [OF sent]
  have "filter is_body_call
          (snd (WriteToCollection test_lib (test_writer (Inr resp)) abcMsg ''content''))
        = [IoCopyDiscard, BodyClose]" for resp
    by blast
  from this [of "\<lparr>StatusCode = 200, RespBody = \<lparr>copy_err = None, close_err = None\<rparr>\<rparr>"]
    this [of "\<lparr>StatusCode = 500,
           RespBody = \<lparr>copy_err = Some (Foreign ''unexpected EOF''), close_err = None\<rparr>\<rparr>"]
  show ?thesis
    by (simp add: answer_def)
qed

text \<open>
  Claim C6. Take a message built by \<^verbatim>\<open>NewNativeMessage\<close> with transaction id \<^verbatim>\<open>tid\<close>,
  with or without the hash header added, and a library whose \<^verbatim>\<open>Header.Set\<close> leaves the
  three header names of the package as they are (they are in canonical form) and whose
  \<^verbatim>\<open>range\<close> visits each header of the message once. If the write succeeds, it has sent
  exactly one request: a PUT to the address of the writer, the collection and the
  extracted uuid joined by slashes, with \<^verbatim>\<open>Content-Type: application/json\<close> and with
  \<^verbatim>\<open>X-Request-Id\<close> equal to \<^verbatim>\<open>tid\<close>.
\<close>

theorem WriteToCollection_put_request:
  assumes canon: "CanonicalMIMEHeaderKey lib ''Content-Type'' = ''Content-Type''"
      "CanonicalMIMEHeaderKey lib transactionIDHeader = transactionIDHeader"
      "CanonicalMIMEHeaderKey lib nativeHashHeader = nativeHashHeader"
    and order: "map_of (range_map lib (entries (headers msg))) = entries (headers msg)"
      "distinct (map fst (range_map lib (entries (headers msg))))"
    and new: "NewNativeMessage lib content timestamp tid = Return (msg0, None)"
    and hashed: "msg = msg0 \<or> AddHashHeader hash msg0 = Return msg"
    and ok: "fst (WriteToCollection lib nw msg collection) = None"
  shows "\<exists>contentUUID req resp.
      bodyParser nw (body msg) = Inr contentUUID
      \<and> filter is_HttpDo (snd (WriteToCollection lib nw msg collection)) = [HttpDo req (Inr resp)]
      \<and> Method req = ''PUT''
      \<and> URL req = address nw @ ''/'' @ collection @ ''/'' @ contentUUID
      \<and> Header req ''Content-Type'' = Some ''application/json''
      \<and> Header req ''X-Request-Id'' = Some tid"
proof -
  from new have h0: "headers msg0 = Some [transactionIDHeader \<mapsto> tid]"
    by (auto simp add: NewNativeMessage_def Let_def entries_def split: sum.splits option.splits)
  with hashed have tid: "entries (headers msg) ''X-Request-Id'' = Some tid"
    and ct: "entries (headers msg) ''Content-Type'' = None"
    and keys: "dom (entries (headers msg)) \<subseteq> {transactionIDHeader, nativeHashHeader}"
    by (auto simp add: AddHashHeader_def entries_def transactionIDHeader_def nativeHashHeader_def
        split: if_splits)
  from keys canon
  have fixed: "\<And>k. k \<in> dom (entries (headers msg)) \<Longrightarrow> CanonicalMIMEHeaderKey lib k = k"
    by auto
  from WriteToCollection_okD [OF ok] obtain contentUUID cBodyAsJSON request0 resp where
    sent: "bodyParser nw (body msg) = Inr contentUUID"
      "json_Marshal lib (body msg) = Inr cBodyAsJSON"
      "http_NewRequest lib ''PUT'' (address nw @ ''/'' @ collection @ ''/'' @ contentUUID)
         (Some cBodyAsJSON) = Inr request0"
    and resp: "httpClient nw (putRequest lib nw msg request0) = Inr resp"
      "\<not> isNot2XXStatusCode (StatusCode resp)"
    by blast
  let ?req = "putRequest lib nw msg request0"
  from WriteToCollection_answered [OF sent resp(1)]
  have "filter is_HttpDo (snd (WriteToCollection lib nw msg collection)) = [HttpDo ?req (Inr resp)]"
    by (simp add: properClose_body_calls)
  moreover have "Method ?req = ''PUT''"
    and "URL ?req = address nw @ ''/'' @ collection @ ''/'' @ contentUUID"
    by (simp_all add: putRequest_fields http_NewRequest_fields [OF sent(3)])
  moreover have "Header ?req ''Content-Type'' = Some ''application/json''"
    by (simp add: putRequest_Header [OF order fixed] ct canon)
  moreover have "Header ?req ''X-Request-Id'' = Some tid"
    by (simp add: putRequest_Header [OF order fixed] tid)
  ultimately show ?thesis
    using sent(1) by blast
qed

theorem WriteToCollection_put_request_witness:
  "\<exists>req resp.
      filter is_HttpDo (snd (WriteToCollection test_lib (test_writer (answer 200)) abcMsg ''content''))
        = [HttpDo req (Inr resp)]
      \<and> Method req = ''PUT''
      \<and> URL req = ''http://localhost:8080/content/abc-123''
      \<and> Header req ''Content-Type'' = Some ''application/json''
      \<and> Header req ''X-Request-Id'' = Some ''tid_test''"
proof -
  let ?nw = "test_writer (answer 200)"
  have canon: "CanonicalMIMEHeaderKey test_lib ''Content-Type'' = ''Content-Type''"
    "CanonicalMIMEHeaderKey test_lib transactionIDHeader = transactionIDHeader"
    "CanonicalMIMEHeaderKey test_lib nativeHashHeader = nativeHashHeader"
    by (simp_all add: test_lib_simps)
  have visited: "range_map test_lib (entries (headers abcMsg))
      = [(transactionIDHeader, expectedTID), (nativeHashHeader, ''27f4d7d5'')]"
    by (simp add: test_lib_simps test_range_map_def abcMsg_simps entries_def
        transactionIDHeader_def nativeHashHeader_def)
  have order: "map_of (range_map test_lib (entries (headers abcMsg))) = entries (headers abcMsg)"
    "distinct (map fst (range_map test_lib (entries (headers abcMsg))))"
    unfolding visited
    by (auto simp add: abcMsg_simps entries_def transactionIDHeader_def nativeHashHeader_def)
  note new = test_NewNativeMessage(2)
  have hashed: "abcMsg = abcMsg0 \<or> AddHashHeader ''27f4d7d5'' abcMsg0 = Return abcMsg"
    by (simp add: test_NewNativeMessage(3))
  have ok: "fst (WriteToCollection test_lib ?nw abcMsg ''content'') = None"
    by (simp add: answer_def test_write_abcMsg isNot2XXStatusCode_def)
  from WriteToCollection_put_request [OF canon order new hashed ok]
  obtain contentUUID req resp where
    uuid: "bodyParser ?nw (body abcMsg) = Inr contentUUID"
    and sent: "filter is_HttpDo (snd (WriteToCollection test_lib ?nw abcMsg ''content''))
             = [HttpDo req (Inr resp)]"
      "Method req = ''PUT''"
      "URL req = address ?nw @ ''/'' @ ''content'' @ ''/'' @ contentUUID"
      "Header req ''Content-Type'' = Some ''application/json''"
      "Header req ''X-Request-Id'' = Some expectedTID"
    by blast
  from uuid have "contentUUID = ''abc-123''"
    by (simp add: test_run_abcMsg)
  with sent show ?thesis
    by (simp add: test_writer_simps expectedTID_def)
qed

subsection \<open>The connectivity check\<close>





end
